theory Spec2Isabelle
  imports Complex_Main "HOL-Library.Word"
begin

section \<open>The HLW8012 measurement engine\<close>

text \<open>
  A shallow embedding of the HLW8012 driver (the C++ class \<open>HLW8012\<close>). The object
  is a record of its fields; every member function takes the record and returns the
  updated record, together with its return value where it has one.

  Conventions of the embedding:
  \<^item> \<open>unsigned long\<close>, \<open>long\<close> and \<open>unsigned int\<close> are 32 bits wide, as on the ESP8266
    and ESP32 targets of the firmware: they are \<open>32 word\<close>, with wrap-around. Where the
    source compares or divides a \<open>long\<close> with an \<open>unsigned long\<close>, C++ converts the
    \<open>long\<close> to \<open>unsigned long\<close>, so the operation is the unsigned one of \<open>32 word\<close>.
  \<^item> \<open>unsigned char\<close> is \<open>8 word\<close>; \<open>1 - _mode\<close> is computed in \<open>int\<close> and stored back
    into an \<open>unsigned char\<close>, which is subtraction on \<open>8 word\<close>.
  \<^item> \<open>float\<close> and \<open>double\<close> values are idealised as \<open>real\<close>: rounding, overflow,
    infinities and NaN are not modelled.
  \<^item> What the platform returns during a call (\<open>micros()\<close>, \<open>pulseIn(...)\<close>) is an
    argument of the function that makes the call.
  \<^item> The two interrupt handlers are functions like the others; interleaving of an
    interrupt with a foreground call is not modelled.
\<close>

type_synonym u8 = "8 word"
type_synonym u32 = "32 word"

datatype hlw8012_mode_t = MODE_CURRENT | MODE_VOLTAGE

datatype pin_mode_t = INPUT_PULLUP | OUTPUT

record hlw8012 =
  cf_pin :: u8
  cf1_pin :: u8
  sel_pin :: u8
  current_resistor :: real
  voltage_resistor :: real
  current_multiplier :: real
  voltage_multiplier :: real
  power_multiplier :: real
  pulse_timeout :: u32
  voltage_pulse_width :: u32
  current_pulse_width :: u32
  power_pulse_width :: u32
  cf_pulse_count_total :: u32
  cf_pulse_count :: u32
  cf1_pulse_count :: u32
  current_val :: real
  voltage_val :: real
  power_val :: real
  current_mode :: u8
  mode :: u8
  use_interrupts :: bool
  last_cf_interrupt :: u32
  last_cf1_interrupt :: u32
  first_cf_interrupt :: u32
  first_cf1_interrupt :: u32
  pin_modes :: "u8 \<Rightarrow> pin_mode_t option"
  pin_levels :: "u8 \<Rightarrow> u8"

text \<open>
  The fields \<open>current_val\<close>, \<open>voltage_val\<close> and \<open>power_val\<close> are the members
  \<open>_current\<close>, \<open>_voltage\<close> and \<open>_power\<close> (the cached readings). \<open>pin_modes\<close> and
  \<open>pin_levels\<close> are the GPIO block as this driver sees it: what \<open>pinMode\<close> configured
  and the value last written to each pin by \<open>digitalWrite\<close>, \<open>DIRECT_pinWrite\<close> or
  \<open>DIRECT_pinWrite_ISR\<close>.
\<close>

text \<open>What the platform returns while one accessor runs: the value of \<open>micros()\<close> and
  the result of \<open>pulseIn\<close> (the pulse length in microseconds, 0 on timeout).\<close>

record platform =
  micros :: u32
  pulseIn :: u32

subsection \<open>Platform primitives\<close>

definition pinMode :: "hlw8012 \<Rightarrow> u8 \<Rightarrow> pin_mode_t \<Rightarrow> hlw8012" where
  "pinMode s pin m = s\<lparr>pin_modes := (pin_modes s)(pin := Some m)\<rparr>"

definition digitalWrite :: "hlw8012 \<Rightarrow> u8 \<Rightarrow> u8 \<Rightarrow> hlw8012" where
  "digitalWrite s pin v = s\<lparr>pin_levels := (pin_levels s)(pin := v)\<rparr>"

text \<open>\<open>static_cast<int>(x)\<close> on a floating-point value: truncation towards zero.\<close>

definition static_cast_int :: "real \<Rightarrow> int" where
  "static_cast_int x = (if 0 \<le> x then \<lfloor>x\<rfloor> else \<lceil>x\<rceil>)"

subsection \<open>Multipliers\<close>

text \<open>\<open>V_REF\<close> and \<open>F_OSC\<close> are macros of the header; they are the parameters
  \<open>vref\<close> and \<open>fosc\<close> here.\<close>

definition calculateDefaultMultipliers :: "real \<Rightarrow> real \<Rightarrow> hlw8012 \<Rightarrow> hlw8012" where
  "calculateDefaultMultipliers vref fosc s =
     s\<lparr>current_multiplier := 1000000 * 512 * vref / current_resistor s / 24 / fosc,
       voltage_multiplier := 1000000 * 512 * vref * voltage_resistor s / 2 / fosc,
       power_multiplier :=
         1000000 * 128 * vref * vref * voltage_resistor s / current_resistor s / 48 / fosc\<rparr>"

definition resetMultipliers :: "real \<Rightarrow> real \<Rightarrow> hlw8012 \<Rightarrow> hlw8012" where
  "resetMultipliers vref fosc s = calculateDefaultMultipliers vref fosc s"

definition setResistors :: "real \<Rightarrow> real \<Rightarrow> hlw8012 \<Rightarrow> real \<Rightarrow> real \<Rightarrow> real \<Rightarrow> hlw8012" where
  "setResistors vref fosc s current voltage_upstream voltage_downstream =
     (if 0 < voltage_downstream then
        (let s1 = (if 0 < current then s\<lparr>current_resistor := current\<rparr> else s);
             s2 = s1\<lparr>voltage_resistor :=
                       (voltage_upstream + voltage_downstream) / voltage_downstream\<rparr>
         in calculateDefaultMultipliers vref fosc s2)
      else s)"

subsection \<open>Initialisation and mode control\<close>

definition begin_op ::
  "real \<Rightarrow> real \<Rightarrow> hlw8012 \<Rightarrow> u8 \<Rightarrow> u8 \<Rightarrow> u8 \<Rightarrow> u8 \<Rightarrow> bool \<Rightarrow> u32 \<Rightarrow> hlw8012" where
  "begin_op vref fosc s cf cf1 sel currentWhen use_irq timeout =
     (let s1 = s\<lparr>cf_pin := cf, cf1_pin := cf1, sel_pin := sel, current_mode := currentWhen,
                 use_interrupts := use_irq, pulse_timeout := timeout\<rparr>;
          s2 = pinMode s1 (cf_pin s1) INPUT_PULLUP;
          s3 = pinMode s2 (cf1_pin s2) INPUT_PULLUP;
          s4 = pinMode s3 (sel_pin s3) OUTPUT;
          s5 = calculateDefaultMultipliers vref fosc s4;
          s6 = s5\<lparr>mode := current_mode s5\<rparr>
      in digitalWrite s6 (sel_pin s6) (mode s6))"

definition setMode :: "hlw8012 \<Rightarrow> hlw8012_mode_t \<Rightarrow> u32 \<Rightarrow> hlw8012" where
  "setMode s m now =
     (let s1 = s\<lparr>mode := (if m = MODE_CURRENT then current_mode s else 1 - current_mode s)\<rparr>;
          s2 = digitalWrite s1 (sel_pin s1) (mode s1)
      in if use_interrupts s2
         then s2\<lparr>first_cf1_interrupt := now, last_cf1_interrupt := now\<rparr>
         else s2)"

definition getMode :: "hlw8012 \<Rightarrow> hlw8012_mode_t" where
  "getMode s = (if mode s = current_mode s then MODE_CURRENT else MODE_VOLTAGE)"

definition toggleMode :: "hlw8012 \<Rightarrow> u32 \<Rightarrow> hlw8012_mode_t \<times> hlw8012" where
  "toggleMode s now =
     (let new_mode = (if getMode s = MODE_CURRENT then MODE_VOLTAGE else MODE_CURRENT)
      in (new_mode, setMode s new_mode now))"

subsection \<open>Staleness checks\<close>

definition checkCFSignal :: "hlw8012 \<Rightarrow> u32 \<Rightarrow> hlw8012" where
  "checkCFSignal s now =
     (let time_since_last = now - last_cf_interrupt s
      in if 2 * pulse_timeout s < time_since_last then
           (let s1 = (if use_interrupts s
                      then s\<lparr>first_cf_interrupt := now, last_cf_interrupt := now,
                             cf_pulse_count := 0\<rparr>
                      else s)
            in s1\<lparr>power_pulse_width := 0\<rparr>)
         else s)"

definition checkCF1Signal :: "hlw8012 \<Rightarrow> u32 \<Rightarrow> hlw8012" where
  "checkCF1Signal s now =
     (let time_since_last = now - last_cf1_interrupt s
      in if pulse_timeout s < time_since_last then
           (let s1 = (if use_interrupts s
                      then s\<lparr>first_cf1_interrupt := now, last_cf1_interrupt := now,
                             cf1_pulse_count := 0\<rparr>
                      else s);
                s2 = (if mode s1 = current_mode s1
                      then s1\<lparr>current_pulse_width := 0\<rparr>
                      else s1\<lparr>voltage_pulse_width := 0\<rparr>);
                m = 1 - mode s2;
                s3 = digitalWrite s2 (sel_pin s2) m
            in s3\<lparr>mode := m\<rparr>)
         else s)"

subsection \<open>Quantity accessors\<close>

text \<open>An accessor returns the value, the validity flag (the reference parameter
  \<open>valid\<close> of the source) and the updated object.\<close>

definition getCurrent :: "hlw8012 \<Rightarrow> platform \<Rightarrow> real \<times> bool \<times> hlw8012" where
  "getCurrent s p =
     (let s1 = (if power_val s = 0 then s\<lparr>current_pulse_width := 0\<rparr>
                else if use_interrupts s then checkCF1Signal s (micros p)
                else if mode s = current_mode s then s\<lparr>current_pulse_width := pulseIn p\<rparr>
                else s);
          w = current_pulse_width s1
      in if 0 < w then
           (let c = current_multiplier s1 / real (unat w) / 2
            in (c, True, s1\<lparr>current_val := c\<rparr>))
         else (0, False, s1\<lparr>current_val := 0\<rparr>))"

definition getVoltage :: "hlw8012 \<Rightarrow> platform \<Rightarrow> real \<times> bool \<times> hlw8012" where
  "getVoltage s p =
     (let s1 = (if use_interrupts s then checkCF1Signal s (micros p)
                else if mode s \<noteq> current_mode s then s\<lparr>voltage_pulse_width := pulseIn p\<rparr>
                else s);
          w = voltage_pulse_width s1
      in if 0 < w then
           (let v = voltage_multiplier s1 / real (unat w) / 2
            in (v, True, s1\<lparr>voltage_val := v\<rparr>))
         else (0, False, s1\<lparr>voltage_val := 0\<rparr>))"

definition getActivePower :: "hlw8012 \<Rightarrow> platform \<Rightarrow> real \<times> bool \<times> hlw8012" where
  "getActivePower s p =
     (let s1 = (if use_interrupts s then checkCFSignal s (micros p)
                else s\<lparr>power_pulse_width := pulseIn p\<rparr>);
          w = power_pulse_width s1
      in if 0 < w then
           (let pw = power_multiplier s1 / real (unat w) / 2
            in (pw, True, s1\<lparr>power_val := pw\<rparr>))
         else (0, False, s1\<lparr>power_val := 0\<rparr>))"

text \<open>The derived accessors call the direct ones in the order of the source; each
  call has its own platform argument.\<close>

definition getApparentPower ::
  "hlw8012 \<Rightarrow> platform \<Rightarrow> platform \<Rightarrow> real \<times> bool \<times> hlw8012" where
  "getApparentPower s pc pv =
     (case getCurrent s pc of (current, valid_cur, s1) \<Rightarrow>
        (case getVoltage s1 pv of (voltage, valid_volt, s2) \<Rightarrow>
           (voltage * current, valid_cur \<and> valid_volt, s2)))"

definition getReactivePower ::
  "hlw8012 \<Rightarrow> platform \<Rightarrow> platform \<Rightarrow> platform \<Rightarrow> real \<times> bool \<times> hlw8012" where
  "getReactivePower s pa pc pv =
     (case getActivePower s pa of (active, valid_active, s1) \<Rightarrow>
        (case getApparentPower s1 pc pv of (apparent, valid_apparent, s2) \<Rightarrow>
           (if active < apparent then sqrt (apparent * apparent - active * active) else 0,
            valid_active \<and> valid_apparent, s2)))"

definition getPowerFactor ::
  "hlw8012 \<Rightarrow> platform \<Rightarrow> platform \<Rightarrow> platform \<Rightarrow> real \<times> bool \<times> hlw8012" where
  "getPowerFactor s pa pc pv =
     (case getActivePower s pa of (active, valid_active, s1) \<Rightarrow>
        (case getApparentPower s1 pc pv of (apparent, valid_apparent, s2) \<Rightarrow>
           (if apparent < active then 1
            else if apparent = 0 then 0
            else active / apparent,
            valid_active \<and> valid_apparent, s2)))"

definition getEnergy :: "hlw8012 \<Rightarrow> real" where
  "getEnergy s =
     (if \<not> use_interrupts s then 0
      else real (unat (cf_pulse_count_total s)) * power_multiplier s / 1000000 / 2)"

definition resetEnergy :: "hlw8012 \<Rightarrow> hlw8012" where
  "resetEnergy s = s\<lparr>cf_pulse_count_total := 0\<rparr>"

subsection \<open>Calibration against a reference value\<close>

text \<open>The local \<open>valid\<close> starts as \<open>false\<close> and is written only by the accessor,
  which runs only when the cached reading truncates to 0.\<close>

definition expectedCurrent :: "hlw8012 \<Rightarrow> real \<Rightarrow> platform \<Rightarrow> hlw8012" where
  "expectedCurrent s v p =
     (case (if static_cast_int (current_val s) = 0
            then (case getCurrent s p of (r, valid, s1) \<Rightarrow> (valid, s1))
            else (False, s)) of
        (valid, s1) \<Rightarrow>
          if valid \<and> 0 < static_cast_int (current_val s1)
          then s1\<lparr>current_multiplier := current_multiplier s1 * (v / current_val s1)\<rparr>
          else s1)"

definition expectedVoltage :: "hlw8012 \<Rightarrow> real \<Rightarrow> platform \<Rightarrow> hlw8012" where
  "expectedVoltage s v p =
     (case (if static_cast_int (voltage_val s) = 0
            then (case getVoltage s p of (r, valid, s1) \<Rightarrow> (valid, s1))
            else (False, s)) of
        (valid, s1) \<Rightarrow>
          if valid \<and> 0 < static_cast_int (voltage_val s1)
          then s1\<lparr>voltage_multiplier := voltage_multiplier s1 * (v / voltage_val s1)\<rparr>
          else s1)"

definition expectedActivePower :: "hlw8012 \<Rightarrow> real \<Rightarrow> platform \<Rightarrow> hlw8012" where
  "expectedActivePower s v p =
     (case (if static_cast_int (power_val s) = 0
            then (case getActivePower s p of (r, valid, s1) \<Rightarrow> (valid, s1))
            else (False, s)) of
        (valid, s1) \<Rightarrow>
          if valid \<and> 0 < static_cast_int (power_val s1)
          then s1\<lparr>power_multiplier := power_multiplier s1 * (v / power_val s1)\<rparr>
          else s1)"

subsection \<open>Interrupt handlers\<close>

definition filter_iir :: "u32 \<Rightarrow> u32 \<Rightarrow> u32" where
  "filter_iir oldvalue newvalue =
     (if oldvalue = 0 then newvalue else drop_bit 2 (oldvalue + 3 * newvalue))"

definition cf_interrupt :: "hlw8012 \<Rightarrow> u32 \<Rightarrow> hlw8012" where
  "cf_interrupt s now =
     (let last_cf = last_cf_interrupt s;
          s1 = s\<lparr>last_cf_interrupt := now\<rparr>;
          time_since_first = now - first_cf_interrupt s1;
          s2 = s1\<lparr>cf_pulse_count_total := cf_pulse_count_total s1 + 1\<rparr>
      in if 2 * pulse_timeout s2 < time_since_first then
           (let first_cf = first_cf_interrupt s2;
                pulse_count = cf_pulse_count s2;
                s3 = s2\<lparr>first_cf_interrupt := now, cf_pulse_count := 0\<rparr>
            in if last_cf = first_cf \<or> pulse_count < 3 then s3\<lparr>power_pulse_width := 0\<rparr>
               else
                 (let pulse_width = (if pulse_count < 10 then now - last_cf
                                     else time_since_first div pulse_count)
                  in s3\<lparr>power_pulse_width := pulse_width\<rparr>))
         else s2\<lparr>cf_pulse_count := cf_pulse_count s2 + 1\<rparr>)"

definition cf1_interrupt :: "hlw8012 \<Rightarrow> u32 \<Rightarrow> hlw8012" where
  "cf1_interrupt s now =
     (let last_cf1 = last_cf1_interrupt s;
          s1 = s\<lparr>last_cf1_interrupt := now\<rparr>;
          time_since_first = now - first_cf1_interrupt s1
      in if pulse_timeout s1 < time_since_first then
           (let first_cf1 = first_cf1_interrupt s1;
                pulse_count = cf1_pulse_count s1;
                md = mode s1;
                newMode = 1 - md;
                s2 = s1\<lparr>first_cf1_interrupt := now, cf1_pulse_count := 0\<rparr>;
                s3 = digitalWrite s2 (sel_pin s2) newMode;
                s4 = s3\<lparr>mode := newMode\<rparr>
            in if last_cf1 = first_cf1 \<or> pulse_count < 3 then
                 (if md = current_mode s4 then s4\<lparr>current_pulse_width := 0\<rparr>
                  else s4\<lparr>voltage_pulse_width := 0\<rparr>)
               else
                 (let pulse_width = (if pulse_count < 10 then now - last_cf1
                                     else time_since_first div pulse_count)
                  in if md = current_mode s4 then s4\<lparr>current_pulse_width := pulse_width\<rparr>
                     else s4\<lparr>voltage_pulse_width := pulse_width\<rparr>))
         else s1\<lparr>cf1_pulse_count := cf1_pulse_count s1 + 1\<rparr>)"

subsection \<open>Reachable objects and concrete objects\<close>

text \<open>The objects that arise from a call of \<open>begin\<close> with select level \<open>currentWhen\<close>
  by the public operations and the two interrupt handlers. The derived accessors are
  sequences of the direct ones, so they add no further objects.\<close>

inductive reachable :: "real \<Rightarrow> real \<Rightarrow> u8 \<Rightarrow> hlw8012 \<Rightarrow> bool"
  for vref fosc currentWhen where
  r_begin: "reachable vref fosc currentWhen
              (begin_op vref fosc s cf cf1 sel currentWhen use_irq timeout)"
| r_setMode: "reachable vref fosc currentWhen s \<Longrightarrow>
     reachable vref fosc currentWhen (setMode s m now)"
| r_toggleMode: "reachable vref fosc currentWhen s \<Longrightarrow>
     reachable vref fosc currentWhen (snd (toggleMode s now))"
| r_getCurrent: "reachable vref fosc currentWhen s \<Longrightarrow>
     reachable vref fosc currentWhen (snd (snd (getCurrent s p)))"
| r_getVoltage: "reachable vref fosc currentWhen s \<Longrightarrow>
     reachable vref fosc currentWhen (snd (snd (getVoltage s p)))"
| r_getActivePower: "reachable vref fosc currentWhen s \<Longrightarrow>
     reachable vref fosc currentWhen (snd (snd (getActivePower s p)))"
| r_resetEnergy: "reachable vref fosc currentWhen s \<Longrightarrow>
     reachable vref fosc currentWhen (resetEnergy s)"
| r_expectedCurrent: "reachable vref fosc currentWhen s \<Longrightarrow>
     reachable vref fosc currentWhen (expectedCurrent s v p)"
| r_expectedVoltage: "reachable vref fosc currentWhen s \<Longrightarrow>
     reachable vref fosc currentWhen (expectedVoltage s v p)"
| r_expectedActivePower: "reachable vref fosc currentWhen s \<Longrightarrow>
     reachable vref fosc currentWhen (expectedActivePower s v p)"
| r_resetMultipliers: "reachable vref fosc currentWhen s \<Longrightarrow>
     reachable vref fosc currentWhen (resetMultipliers vref fosc s)"
| r_setResistors: "reachable vref fosc currentWhen s \<Longrightarrow>
     reachable vref fosc currentWhen (setResistors vref fosc s c u d)"
| r_cf_interrupt: "reachable vref fosc currentWhen s \<Longrightarrow>
     reachable vref fosc currentWhen (cf_interrupt s now)"
| r_cf1_interrupt: "reachable vref fosc currentWhen s \<Longrightarrow>
     reachable vref fosc currentWhen (cf1_interrupt s now)"

text \<open>Concrete objects on which the theorems below are evaluated. \<open>demo_object\<close> is an
  object before \<open>begin\<close>: counters, widths, timestamps and readings 0, both resistors 1.
  \<open>demo_irq\<close> and \<open>demo_poll\<close> are that object after \<open>begin\<close> (power pin 4, shared pin 5,
  select pin 12, current level 1, timeout 1000 microseconds, reference constants 1), with
  and without interrupts.\<close>

definition demo_object :: hlw8012 where
  "demo_object =
     \<lparr>cf_pin = 0, cf1_pin = 0, sel_pin = 0,
      current_resistor = 1, voltage_resistor = 1,
      current_multiplier = 0, voltage_multiplier = 0, power_multiplier = 0,
      pulse_timeout = 0,
      voltage_pulse_width = 0, current_pulse_width = 0, power_pulse_width = 0,
      cf_pulse_count_total = 0, cf_pulse_count = 0, cf1_pulse_count = 0,
      current_val = 0, voltage_val = 0, power_val = 0,
      current_mode = 1, mode = 0, use_interrupts = True,
      last_cf_interrupt = 0, last_cf1_interrupt = 0,
      first_cf_interrupt = 0, first_cf1_interrupt = 0,
      pin_modes = (\<lambda>_. None), pin_levels = (\<lambda>_. 0)\<rparr>"

definition demo_irq :: hlw8012 where
  "demo_irq = begin_op 1 1 demo_object 4 5 12 1 True 1000"

definition demo_poll :: hlw8012 where
  "demo_poll = begin_op 1 1 demo_object 4 5 12 1 False 1000"

text \<open>\<open>demo_cal\<close>: the polling object with all three multipliers 8 and a cached power
  reading of 1.\<close>

definition demo_cal :: hlw8012 where
  "demo_cal = demo_poll\<lparr>current_multiplier := 8, voltage_multiplier := 8,
                         power_multiplier := 8, power_val := 1\<rparr>"

text \<open>\<open>stale_window\<close>: five edges on the shared channel at 10, ..., 50 microseconds,
  then \<open>setMode(MODE_CURRENT)\<close> at 100. \<open>busy_window\<close>: twelve edges counted on the power
  channel, the last at 11000, and five on the shared channel, the last at 1500.\<close>

definition stale_window :: hlw8012 where
  "stale_window =
     setMode (fold (\<lambda>t s. cf1_interrupt s t) [10, 20, 30, 40, 50] demo_irq) MODE_CURRENT 100"

definition busy_window :: hlw8012 where
  "busy_window =
     demo_irq\<lparr>cf_pulse_count := 12, last_cf_interrupt := 11000,
              cf1_pulse_count := 5, last_cf1_interrupt := 1500\<rparr>"

text \<open>\<open>demo_pf\<close>: the polling object with a power multiplier of 6000000, a current
  multiplier of 8, a voltage multiplier of 8000 and a stored voltage pulse width of 2.\<close>

definition demo_pf :: hlw8012 where
  "demo_pf = demo_poll\<lparr>current_multiplier := 8, voltage_multiplier := 8000,
                        power_multiplier := 6000000, voltage_pulse_width := 2\<rparr>"

text \<open>Predicates on the three multipliers: all strictly positive; all equal in two
  objects.\<close>

definition multipliers_positive :: "hlw8012 \<Rightarrow> bool" where
  "multipliers_positive s =
     (0 < current_multiplier s \<and> 0 < voltage_multiplier s \<and> 0 < power_multiplier s)"

definition same_multipliers :: "hlw8012 \<Rightarrow> hlw8012 \<Rightarrow> bool" where
  "same_multipliers s s' =
     (current_multiplier s' = current_multiplier s \<and>
      voltage_multiplier s' = voltage_multiplier s \<and>
      power_multiplier s' = power_multiplier s)"

lemmas demo_defs =
  demo_irq_def demo_poll_def demo_cal_def demo_object_def begin_op_def pinMode_def
  digitalWrite_def calculateDefaultMultipliers_def Let_def

section \<open>Properties\<close>

subsection \<open>Closing an averaging window\<close>

text \<open>
  Claim C1 says that every closed window yields 0 for a pulse count below 3, the last
  inter-edge interval for a count from 3 to 9, and elapsed time divided by the count from
  10 on. Both handlers have one more guard: when the last recorded edge time equals the
  window start, the width is 0 whatever the count. \<open>setMode\<close> sets both timestamps of the
  shared channel to the same instant and keeps the count, so the guard fires on
  \<open>stale_window\<close>: five pulses counted, window closed at 2000, and the width is 0, not
  the interval 1900.
\<close>

theorem window_close_counterexample:
  "pulse_timeout stale_window < 2000 - first_cf1_interrupt stale_window \<and>
   3 \<le> cf1_pulse_count stale_window \<and> cf1_pulse_count stale_window < 10 \<and>
   mode stale_window = current_mode stale_window \<and>
   current_pulse_width (cf1_interrupt stale_window 2000) = 0 \<and>
   2000 - last_cf1_interrupt stale_window = 1900 \<and>
   current_pulse_width (cf1_interrupt stale_window 2000) \<noteq>
     2000 - last_cf1_interrupt stale_window"
  by (simp add: stale_window_def demo_defs setMode_def cf1_interrupt_def)

text \<open>
  Claim C1, amended: when an edge at time \<open>now\<close> closes the window (elapsed time above
  twice the timeout on the power channel, above the timeout on the shared channel), the
  width written is 0 if the last edge time equals the window start or the pulse count is
  below 3; else the interval from the last edge to \<open>now\<close> if the count is below 10; else
  the elapsed time divided by the count (unsigned integer division). On the shared
  channel the width written is the current width when the mode before the edge is the
  current level, and the voltage width otherwise.
\<close>

theorem window_close_pulse_width:
  "(2 * pulse_timeout s < now - first_cf_interrupt s \<longrightarrow>
      power_pulse_width (cf_interrupt s now) =
        (if last_cf_interrupt s = first_cf_interrupt s \<or> cf_pulse_count s < 3 then 0
         else if cf_pulse_count s < 10 then now - last_cf_interrupt s
         else (now - first_cf_interrupt s) div cf_pulse_count s)) \<and>
   (pulse_timeout s < now1 - first_cf1_interrupt s \<longrightarrow>
      (if mode s = current_mode s then current_pulse_width (cf1_interrupt s now1)
       else voltage_pulse_width (cf1_interrupt s now1)) =
        (if last_cf1_interrupt s = first_cf1_interrupt s \<or> cf1_pulse_count s < 3 then 0
         else if cf1_pulse_count s < 10 then now1 - last_cf1_interrupt s
         else (now1 - first_cf1_interrupt s) div cf1_pulse_count s))"
  by (simp add: cf_interrupt_def cf1_interrupt_def Let_def digitalWrite_def)

theorem window_close_pulse_width_witness:
  "2 * pulse_timeout busy_window < 12000 - first_cf_interrupt busy_window \<and>
   power_pulse_width (cf_interrupt busy_window 12000) = 1000 \<and>
   pulse_timeout busy_window < 2000 - first_cf1_interrupt busy_window \<and>
   current_pulse_width (cf1_interrupt busy_window 2000) = 500"
  using window_close_pulse_width [of busy_window 12000 2000]
  by (simp add: busy_window_def demo_defs)

subsection \<open>The direct accessors\<close>

lemma getCurrent_value:
  "(case getCurrent s p of (v, valid, s') \<Rightarrow>
      current_multiplier s' = current_multiplier s \<and> current_val s' = v \<and>
      (0 < current_pulse_width s' \<longrightarrow>
         v = current_multiplier s / real (unat (current_pulse_width s')) / 2 \<and> valid) \<and>
      (current_pulse_width s' = 0 \<longrightarrow> v = 0 \<and> \<not> valid))"
  by (simp add: getCurrent_def checkCF1Signal_def digitalWrite_def Let_def word_gt_0)

lemma getVoltage_value:
  "(case getVoltage s p of (v, valid, s') \<Rightarrow>
      voltage_multiplier s' = voltage_multiplier s \<and> voltage_val s' = v \<and>
      (0 < voltage_pulse_width s' \<longrightarrow>
         v = voltage_multiplier s / real (unat (voltage_pulse_width s')) / 2 \<and> valid) \<and>
      (voltage_pulse_width s' = 0 \<longrightarrow> v = 0 \<and> \<not> valid))"
  by (simp add: getVoltage_def checkCF1Signal_def digitalWrite_def Let_def word_gt_0)

lemma getActivePower_value:
  "(case getActivePower s p of (v, valid, s') \<Rightarrow>
      power_multiplier s' = power_multiplier s \<and> power_val s' = v \<and>
      (0 < power_pulse_width s' \<longrightarrow>
         v = power_multiplier s / real (unat (power_pulse_width s')) / 2 \<and> valid) \<and>
      (power_pulse_width s' = 0 \<longrightarrow> v = 0 \<and> \<not> valid))"
  by (simp add: getActivePower_def checkCFSignal_def Let_def word_gt_0)

text \<open>The width each direct accessor holds after its refresh step, from the object
  before the call and what the platform returns.\<close>

lemma getCurrent_width:
  "current_pulse_width (snd (snd (getCurrent s p))) =
     (if power_val s = 0 then 0
      else if use_interrupts s then
        (if pulse_timeout s < micros p - last_cf1_interrupt s \<and> mode s = current_mode s
         then 0 else current_pulse_width s)
      else if mode s = current_mode s then pulseIn p
      else current_pulse_width s)"
  by (simp add: getCurrent_def checkCF1Signal_def digitalWrite_def Let_def)

lemma getVoltage_width:
  "voltage_pulse_width (snd (snd (getVoltage s p))) =
     (if use_interrupts s then
        (if pulse_timeout s < micros p - last_cf1_interrupt s \<and> mode s \<noteq> current_mode s
         then 0 else voltage_pulse_width s)
      else if mode s \<noteq> current_mode s then pulseIn p
      else voltage_pulse_width s)"
  by (simp add: getVoltage_def checkCF1Signal_def digitalWrite_def Let_def)

lemma getActivePower_width:
  "power_pulse_width (snd (snd (getActivePower s p))) =
     (if use_interrupts s then
        (if 2 * pulse_timeout s < micros p - last_cf_interrupt s
         then 0 else power_pulse_width s)
      else pulseIn p)"
  by (simp add: getActivePower_def checkCFSignal_def Let_def)

text \<open>
  Claim C2: each of \<open>getCurrent\<close>, \<open>getVoltage\<close> and \<open>getActivePower\<close> first refreshes
  its pulse width and then reads the stored width \<open>w\<close>. The refresh is determined by the
  object before the call: under interrupts the width is kept unless the staleness check
  fires for this quantity, which forces it to 0; under polling the width is the pulse
  the platform measured when the quantity is the selected one (always for power), and
  is kept otherwise; \<open>getCurrent\<close> forces 0 when the cached power is 0. If \<open>w > 0\<close> the
  value is the multiplier divided by \<open>w\<close> and by 2 and the flag is true; if \<open>w = 0\<close> the
  value is 0 and the flag is false. The accessor leaves its multiplier as it was and
  caches the value it returns.
\<close>

theorem direct_accessors_value:
  "(case getCurrent s p of (v, valid, s') \<Rightarrow>
      current_pulse_width s' =
        (if power_val s = 0 then 0
         else if use_interrupts s then
           (if pulse_timeout s < micros p - last_cf1_interrupt s \<and> mode s = current_mode s
            then 0 else current_pulse_width s)
         else if mode s = current_mode s then pulseIn p
         else current_pulse_width s) \<and>
      current_multiplier s' = current_multiplier s \<and> current_val s' = v \<and>
      (0 < current_pulse_width s' \<longrightarrow>
         v = current_multiplier s / real (unat (current_pulse_width s')) / 2 \<and> valid) \<and>
      (current_pulse_width s' = 0 \<longrightarrow> v = 0 \<and> \<not> valid)) \<and>
   (case getVoltage s p of (v, valid, s') \<Rightarrow>
      voltage_pulse_width s' =
        (if use_interrupts s then
           (if pulse_timeout s < micros p - last_cf1_interrupt s \<and> mode s \<noteq> current_mode s
            then 0 else voltage_pulse_width s)
         else if mode s \<noteq> current_mode s then pulseIn p
         else voltage_pulse_width s) \<and>
      voltage_multiplier s' = voltage_multiplier s \<and> voltage_val s' = v \<and>
      (0 < voltage_pulse_width s' \<longrightarrow>
         v = voltage_multiplier s / real (unat (voltage_pulse_width s')) / 2 \<and> valid) \<and>
      (voltage_pulse_width s' = 0 \<longrightarrow> v = 0 \<and> \<not> valid)) \<and>
   (case getActivePower s p of (v, valid, s') \<Rightarrow>
      power_pulse_width s' =
        (if use_interrupts s then
           (if 2 * pulse_timeout s < micros p - last_cf_interrupt s
            then 0 else power_pulse_width s)
         else pulseIn p) \<and>
      power_multiplier s' = power_multiplier s \<and> power_val s' = v \<and>
      (0 < power_pulse_width s' \<longrightarrow>
         v = power_multiplier s / real (unat (power_pulse_width s')) / 2 \<and> valid) \<and>
      (power_pulse_width s' = 0 \<longrightarrow> v = 0 \<and> \<not> valid))"
  using getCurrent_value [of s p] getVoltage_value [of s p] getActivePower_value [of s p]
    getCurrent_width [of s p] getVoltage_width [of s p] getActivePower_width [of s p]
  by (simp add: case_prod_beta)

text \<open>The theorem on concrete objects. On \<open>demo_cal\<close> (polling, CURRENT selected) a
  measured pulse of 2 gives current and power 2, and the voltage, not selected and with
  stored width 0, is 0 and invalid; a timed-out pulse gives current and power 0 and
  invalid. After \<open>setMode(MODE_VOLTAGE)\<close> a measured pulse of 4 gives voltage 1. On
  \<open>busy_window\<close> (interrupts, no staleness at time 1600) with stored widths 4 and
  multipliers 8 each, current, voltage and power are each 1.\<close>

theorem direct_accessors_value_witness:
  "fst (getCurrent demo_cal \<lparr>micros = 0, pulseIn = 2\<rparr>) = 8 / 2 / 2 \<and>
   fst (snd (getCurrent demo_cal \<lparr>micros = 0, pulseIn = 2\<rparr>)) \<and>
   fst (getVoltage demo_cal \<lparr>micros = 0, pulseIn = 2\<rparr>) = 0 \<and>
   \<not> fst (snd (getVoltage demo_cal \<lparr>micros = 0, pulseIn = 2\<rparr>)) \<and>
   fst (getActivePower demo_cal \<lparr>micros = 0, pulseIn = 2\<rparr>) = 8 / 2 / 2 \<and>
   fst (snd (getActivePower demo_cal \<lparr>micros = 0, pulseIn = 2\<rparr>)) \<and>
   fst (getCurrent demo_cal \<lparr>micros = 0, pulseIn = 0\<rparr>) = 0 \<and>
   \<not> fst (snd (getCurrent demo_cal \<lparr>micros = 0, pulseIn = 0\<rparr>)) \<and>
   fst (getActivePower demo_cal \<lparr>micros = 0, pulseIn = 0\<rparr>) = 0 \<and>
   \<not> fst (snd (getActivePower demo_cal \<lparr>micros = 0, pulseIn = 0\<rparr>)) \<and>
   fst (getVoltage (setMode demo_cal MODE_VOLTAGE 0) \<lparr>micros = 0, pulseIn = 4\<rparr>) = 8 / 4 / 2 \<and>
   fst (snd (getVoltage (setMode demo_cal MODE_VOLTAGE 0) \<lparr>micros = 0, pulseIn = 4\<rparr>)) \<and>
   fst (getCurrent
         (busy_window\<lparr>current_multiplier := 8, current_pulse_width := 4, power_val := 1\<rparr>)
         \<lparr>micros = 1600, pulseIn = 0\<rparr>) = 8 / 4 / 2 \<and>
   fst (getVoltage (busy_window\<lparr>voltage_multiplier := 8, voltage_pulse_width := 4\<rparr>)
         \<lparr>micros = 1600, pulseIn = 0\<rparr>) = 8 / 4 / 2 \<and>
   fst (snd (getVoltage (busy_window\<lparr>voltage_multiplier := 8, voltage_pulse_width := 4\<rparr>)
         \<lparr>micros = 1600, pulseIn = 0\<rparr>)) \<and>
   fst (getActivePower (busy_window\<lparr>power_multiplier := 8, power_pulse_width := 4\<rparr>)
         \<lparr>micros = 11500, pulseIn = 0\<rparr>) = 8 / 4 / 2"
  using direct_accessors_value [of demo_cal "\<lparr>micros = 0, pulseIn = 2\<rparr>"]
    direct_accessors_value [of demo_cal "\<lparr>micros = 0, pulseIn = 0\<rparr>"]
    direct_accessors_value [of "setMode demo_cal MODE_VOLTAGE 0" "\<lparr>micros = 0, pulseIn = 4\<rparr>"]
    direct_accessors_value
      [of "busy_window\<lparr>current_multiplier := 8, current_pulse_width := 4, power_val := 1\<rparr>"
        "\<lparr>micros = 1600, pulseIn = 0\<rparr>"]
    direct_accessors_value
      [of "busy_window\<lparr>voltage_multiplier := 8, voltage_pulse_width := 4\<rparr>"
        "\<lparr>micros = 1600, pulseIn = 0\<rparr>"]
    direct_accessors_value
      [of "busy_window\<lparr>power_multiplier := 8, power_pulse_width := 4\<rparr>"
        "\<lparr>micros = 11500, pulseIn = 0\<rparr>"]
  by (simp add: case_prod_beta setMode_def busy_window_def demo_defs)

subsection \<open>Reading the current while the cached power is zero\<close>

lemma getCurrent_power_zero:
  "power_val s = 0 \<Longrightarrow>
     getCurrent s p = (0, False, s\<lparr>current_pulse_width := 0, current_val := 0\<rparr>)"
  by (simp add: getCurrent_def Let_def)

text \<open>
  Claim C8: when the cached active power \<open>_power\<close> is exactly 0, \<open>getCurrent\<close> sets the
  current pulse width to 0 without measuring and returns value 0 with the flag false.
  The test on \<open>_power\<close> comes before the test on the discipline, so no assumption on
  \<open>use_interrupts\<close> is needed.
\<close>

theorem getCurrent_zero_power:
  "power_val s = 0 \<Longrightarrow>
     (case getCurrent s p of (v, valid, s') \<Rightarrow>
        current_pulse_width s' = 0 \<and> v = 0 \<and> \<not> valid \<and> current_val s' = 0)"
  by (simp add: getCurrent_power_zero)

theorem getCurrent_zero_power_witness:
  "power_val demo_irq = 0 \<and> use_interrupts demo_irq \<and>
   fst (getCurrent demo_irq \<lparr>micros = 5000, pulseIn = 7\<rparr>) = 0 \<and>
   \<not> fst (snd (getCurrent demo_irq \<lparr>micros = 5000, pulseIn = 7\<rparr>)) \<and>
   current_pulse_width (snd (snd (getCurrent demo_irq \<lparr>micros = 5000, pulseIn = 7\<rparr>))) = 0 \<and>
   power_val demo_poll = 0 \<and> \<not> use_interrupts demo_poll \<and>
   fst (getCurrent demo_poll \<lparr>micros = 5000, pulseIn = 7\<rparr>) = 0 \<and>
   \<not> fst (snd (getCurrent demo_poll \<lparr>micros = 5000, pulseIn = 7\<rparr>)) \<and>
   current_pulse_width (snd (snd (getCurrent demo_poll \<lparr>micros = 5000, pulseIn = 7\<rparr>))) = 0"
  using getCurrent_zero_power [of demo_irq "\<lparr>micros = 5000, pulseIn = 7\<rparr>"]
    getCurrent_zero_power [of demo_poll "\<lparr>micros = 5000, pulseIn = 7\<rparr>"]
  by (simp add: demo_defs split: prod.splits)

text \<open>
  Claim C10: a \<open>getCurrent\<close> call made while the cached active power is exactly 0 leaves
  the mode, every pin level and the shared channel's window (pulse count, first and last
  edge time) as they were, under either discipline: neither the staleness check nor a
  mode toggle runs.
\<close>

theorem getCurrent_zero_power_frame:
  "power_val s = 0 \<Longrightarrow>
     (case getCurrent s p of (v, valid, s') \<Rightarrow>
        mode s' = mode s \<and> getMode s' = getMode s \<and> pin_levels s' = pin_levels s \<and>
        cf1_pulse_count s' = cf1_pulse_count s \<and>
        first_cf1_interrupt s' = first_cf1_interrupt s \<and>
        last_cf1_interrupt s' = last_cf1_interrupt s)"
  by (simp add: getCurrent_power_zero getMode_def)

theorem getCurrent_zero_power_frame_witness:
  "power_val stale_window = 0 \<and> use_interrupts stale_window \<and>
   pulse_timeout stale_window < 5000 - last_cf1_interrupt stale_window \<and>
   mode (snd (snd (getCurrent stale_window \<lparr>micros = 5000, pulseIn = 7\<rparr>))) = 1 \<and>
   pin_levels (snd (snd (getCurrent stale_window \<lparr>micros = 5000, pulseIn = 7\<rparr>))) 12 = 1 \<and>
   cf1_pulse_count (snd (snd (getCurrent stale_window \<lparr>micros = 5000, pulseIn = 7\<rparr>))) = 5 \<and>
   first_cf1_interrupt (snd (snd (getCurrent stale_window \<lparr>micros = 5000, pulseIn = 7\<rparr>))) = 100 \<and>
   last_cf1_interrupt (snd (snd (getCurrent stale_window \<lparr>micros = 5000, pulseIn = 7\<rparr>))) = 100 \<and>
   power_val demo_poll = 0 \<and> \<not> use_interrupts demo_poll \<and>
   mode (snd (snd (getCurrent demo_poll \<lparr>micros = 5000, pulseIn = 7\<rparr>))) = 1 \<and>
   pin_levels (snd (snd (getCurrent demo_poll \<lparr>micros = 5000, pulseIn = 7\<rparr>))) 12 = 1"
  using getCurrent_zero_power_frame [of stale_window "\<lparr>micros = 5000, pulseIn = 7\<rparr>"]
    getCurrent_zero_power_frame [of demo_poll "\<lparr>micros = 5000, pulseIn = 7\<rparr>"]
  by (simp add: stale_window_def setMode_def cf1_interrupt_def demo_defs split: prod.splits)

subsection \<open>The staleness check on the shared channel\<close>

lemma word8_one_minus_neq: "(1 :: u8) - x \<noteq> x"
proof
  assume "1 - x = x"
  then have "1 = x + x" by (simp add: algebra_simps)
  then have "odd (x + x)" by (metis odd_one)
  then show False by simp
qed

text \<open>
  Claim C7 says that after a silence longer than the timeout on the shared channel, in
  CURRENT mode with interrupts, the next \<open>getCurrent\<close> returns 0 and invalid, restarts
  the window and toggles the select pin to the VOLTAGE level. \<open>getCurrent\<close> runs the
  staleness check only when the cached power is not 0. On \<open>demo_irq\<close>, the object right
  after \<open>begin\<close>, the cached power is 0: with the clock at 5000 and the last edge at 0
  the call leaves the mode CURRENT, the select pin at the current level and the last
  edge time at 0.
\<close>

theorem getCurrent_stale_counterexample:
  "power_val demo_irq = 0 \<and> use_interrupts demo_irq \<and> getMode demo_irq = MODE_CURRENT \<and>
   pulse_timeout demo_irq < 5000 - last_cf1_interrupt demo_irq \<and>
   getMode (snd (snd (getCurrent demo_irq \<lparr>micros = 5000, pulseIn = 0\<rparr>))) = MODE_CURRENT \<and>
   pin_levels (snd (snd (getCurrent demo_irq \<lparr>micros = 5000, pulseIn = 0\<rparr>))) (sel_pin demo_irq)
     = current_mode demo_irq \<and>
   last_cf1_interrupt (snd (snd (getCurrent demo_irq \<lparr>micros = 5000, pulseIn = 0\<rparr>))) = 0"
  by (simp add: getCurrent_def getMode_def demo_defs)

text \<open>
  Claim C7, amended: if the cached active power is not 0, interrupts are in use, the mode
  is CURRENT and the time since the last edge on the shared channel (modulo \<open>2^32\<close>)
  exceeds the timeout, then \<open>getCurrent\<close> returns value 0 and invalid, the current pulse
  width is 0, the window of the shared channel is restarted at the time of the call with
  count 0, the mode is VOLTAGE and the select pin carries the voltage level
  \<open>1 - currentWhen\<close>.
\<close>

theorem getCurrent_stale_toggles:
  assumes "power_val s \<noteq> 0" and "use_interrupts s" and "mode s = current_mode s"
    and "pulse_timeout s < micros p - last_cf1_interrupt s"
  shows "case getCurrent s p of (v, valid, s') \<Rightarrow>
           v = 0 \<and> \<not> valid \<and> current_pulse_width s' = 0 \<and>
           first_cf1_interrupt s' = micros p \<and> last_cf1_interrupt s' = micros p \<and>
           cf1_pulse_count s' = 0 \<and>
           mode s' = 1 - current_mode s \<and> getMode s' = MODE_VOLTAGE \<and>
           pin_levels s' (sel_pin s) = 1 - current_mode s"
  using assms
  by (simp add: getCurrent_def checkCF1Signal_def digitalWrite_def getMode_def Let_def
      word8_one_minus_neq)

theorem getCurrent_stale_toggles_witness:
  "power_val (stale_window\<lparr>power_val := 3\<rparr>) \<noteq> 0 \<and>
   use_interrupts (stale_window\<lparr>power_val := 3\<rparr>) \<and>
   mode (stale_window\<lparr>power_val := 3\<rparr>) = current_mode (stale_window\<lparr>power_val := 3\<rparr>) \<and>
   pulse_timeout (stale_window\<lparr>power_val := 3\<rparr>)
     < 5000 - last_cf1_interrupt (stale_window\<lparr>power_val := 3\<rparr>) \<and>
   fst (getCurrent (stale_window\<lparr>power_val := 3\<rparr>) \<lparr>micros = 5000, pulseIn = 0\<rparr>) = 0 \<and>
   \<not> fst (snd (getCurrent (stale_window\<lparr>power_val := 3\<rparr>) \<lparr>micros = 5000, pulseIn = 0\<rparr>)) \<and>
   cf1_pulse_count
     (snd (snd (getCurrent (stale_window\<lparr>power_val := 3\<rparr>) \<lparr>micros = 5000, pulseIn = 0\<rparr>))) = 0 \<and>
   last_cf1_interrupt
     (snd (snd (getCurrent (stale_window\<lparr>power_val := 3\<rparr>) \<lparr>micros = 5000, pulseIn = 0\<rparr>))) = 5000 \<and>
   getMode
     (snd (snd (getCurrent (stale_window\<lparr>power_val := 3\<rparr>) \<lparr>micros = 5000, pulseIn = 0\<rparr>)))
     = MODE_VOLTAGE \<and>
   pin_levels
     (snd (snd (getCurrent (stale_window\<lparr>power_val := 3\<rparr>) \<lparr>micros = 5000, pulseIn = 0\<rparr>))) 12 = 0"
proof -
  have h: "power_val (stale_window\<lparr>power_val := 3\<rparr>) \<noteq> 0"
    "use_interrupts (stale_window\<lparr>power_val := 3\<rparr>)"
    "mode (stale_window\<lparr>power_val := 3\<rparr>) = current_mode (stale_window\<lparr>power_val := 3\<rparr>)"
    "pulse_timeout (stale_window\<lparr>power_val := 3\<rparr>)
       < micros \<lparr>micros = 5000, pulseIn = 0\<rparr> - last_cf1_interrupt (stale_window\<lparr>power_val := 3\<rparr>)"
    "sel_pin (stale_window\<lparr>power_val := 3\<rparr>) = 12"
    "current_mode (stale_window\<lparr>power_val := 3\<rparr>) = 1"
    by (simp_all add: stale_window_def setMode_def cf1_interrupt_def demo_defs)
  show ?thesis
    using h getCurrent_stale_toggles [OF h(1) h(2) h(3) h(4)]
    by (simp split: prod.splits)
qed

subsection \<open>Resistor configuration\<close>

text \<open>
  Claim C6 says that \<open>setResistors\<close> is a no-op whenever any of its three arguments is
  zero or negative. Only the downstream value is a gate for the whole call. On
  \<open>demo_irq\<close>, \<open>setResistors(0, 1, 1)\<close> has a zero current resistor and still replaces the
  voltage ratio 1 by 2 and recomputes the multipliers.
\<close>

theorem setResistors_counterexample:
  "voltage_resistor demo_irq = 1 \<and>
   voltage_resistor (setResistors 1 1 demo_irq 0 1 1) = 2 \<and>
   voltage_multiplier demo_irq = 256000000 \<and>
   voltage_multiplier (setResistors 1 1 demo_irq 0 1 1) = 512000000"
  by (simp add: setResistors_def demo_defs)

text \<open>
  Claim C6, amended: a call of \<open>setResistors\<close> whose downstream value is zero or negative
  changes nothing. A call with a positive downstream value and a zero or negative current
  value keeps the stored current resistor, replaces the voltage ratio by
  \<open>(upstream + downstream) / downstream\<close> and recomputes the three multipliers.
\<close>

theorem setResistors_guards:
  "(d \<le> 0 \<longrightarrow> setResistors vref fosc s c u d = s) \<and>
   (0 < d \<and> c \<le> 0 \<longrightarrow>
      setResistors vref fosc s c u d =
        calculateDefaultMultipliers vref fosc (s\<lparr>voltage_resistor := (u + d) / d\<rparr>) \<and>
      current_resistor (setResistors vref fosc s c u d) = current_resistor s)"
  by (simp add: setResistors_def calculateDefaultMultipliers_def Let_def)

theorem setResistors_guards_witness:
  "(0 :: real) \<le> 0 \<and> setResistors 1 1 demo_irq 5 7 0 = demo_irq \<and>
   (0 :: real) < 1 \<and> (- 3 :: real) \<le> 0 \<and>
   current_resistor (setResistors 1 1 demo_irq (- 3) 1 1) = current_resistor demo_irq \<and>
   voltage_resistor (setResistors 1 1 demo_irq (- 3) 1 1) = 2"
  using setResistors_guards [where vref = 1 and fosc = 1 and s = demo_irq and c = 5 and u = 7 and d = 0]
    setResistors_guards [where vref = 1 and fosc = 1 and s = demo_irq and c = "- 3" and u = 1 and d = 1]
  by (simp add: calculateDefaultMultipliers_def)

subsection \<open>Calibration calls, unfolded\<close>

text \<open>The three calibration calls written with projections of the accessor's result.\<close>

lemma expectedCurrent_eq:
  "expectedCurrent s v p =
     (if static_cast_int (current_val s) = 0 then
        (let valid = fst (snd (getCurrent s p)); s1 = snd (snd (getCurrent s p))
         in if valid \<and> 0 < static_cast_int (current_val s1)
            then s1\<lparr>current_multiplier := current_multiplier s1 * (v / current_val s1)\<rparr>
            else s1)
      else s)"
  by (auto simp add: expectedCurrent_def Let_def split: prod.splits)

lemma expectedVoltage_eq:
  "expectedVoltage s v p =
     (if static_cast_int (voltage_val s) = 0 then
        (let valid = fst (snd (getVoltage s p)); s1 = snd (snd (getVoltage s p))
         in if valid \<and> 0 < static_cast_int (voltage_val s1)
            then s1\<lparr>voltage_multiplier := voltage_multiplier s1 * (v / voltage_val s1)\<rparr>
            else s1)
      else s)"
  by (auto simp add: expectedVoltage_def Let_def split: prod.splits)

lemma expectedActivePower_eq:
  "expectedActivePower s v p =
     (if static_cast_int (power_val s) = 0 then
        (let valid = fst (snd (getActivePower s p)); s1 = snd (snd (getActivePower s p))
         in if valid \<and> 0 < static_cast_int (power_val s1)
            then s1\<lparr>power_multiplier := power_multiplier s1 * (v / power_val s1)\<rparr>
            else s1)
      else s)"
  by (auto simp add: expectedActivePower_def Let_def split: prod.splits)

subsection \<open>Mode control\<close>

text \<open>The polarity \<open>_current_mode\<close> is written by \<open>begin\<close> only.\<close>

lemma current_mode_checkCF1Signal [simp]:
  "current_mode (checkCF1Signal s now) = current_mode s"
  by (simp add: checkCF1Signal_def digitalWrite_def Let_def)

lemma current_mode_checkCFSignal [simp]:
  "current_mode (checkCFSignal s now) = current_mode s"
  by (simp add: checkCFSignal_def Let_def)

lemma current_mode_getCurrent [simp]:
  "current_mode (snd (snd (getCurrent s p))) = current_mode s"
  by (simp add: getCurrent_def Let_def)

lemma current_mode_getVoltage [simp]:
  "current_mode (snd (snd (getVoltage s p))) = current_mode s"
  by (simp add: getVoltage_def Let_def)

lemma current_mode_getActivePower [simp]:
  "current_mode (snd (snd (getActivePower s p))) = current_mode s"
  by (simp add: getActivePower_def Let_def)

lemma current_mode_setMode [simp]: "current_mode (setMode s m now) = current_mode s"
  by (simp add: setMode_def digitalWrite_def Let_def)

lemma current_mode_expectedCurrent [simp]:
  "current_mode (expectedCurrent s v p) = current_mode s"
  by (simp add: expectedCurrent_eq Let_def)

lemma current_mode_expectedVoltage [simp]:
  "current_mode (expectedVoltage s v p) = current_mode s"
  by (simp add: expectedVoltage_eq Let_def)

lemma current_mode_expectedActivePower [simp]:
  "current_mode (expectedActivePower s v p) = current_mode s"
  by (simp add: expectedActivePower_eq Let_def)

lemma reachable_current_mode:
  "reachable vref fosc cw s \<Longrightarrow> current_mode s = cw"
proof (induction rule: reachable.induct)
  case (r_begin s cf cf1 sel use_irq timeout)
  show ?case
    by (simp add: begin_op_def pinMode_def digitalWrite_def calculateDefaultMultipliers_def
        Let_def)
next
  case (r_cf_interrupt s now)
  then show ?case by (simp add: cf_interrupt_def Let_def)
next
  case (r_cf1_interrupt s now)
  then show ?case by (simp add: cf1_interrupt_def digitalWrite_def Let_def)
qed (simp_all add: toggleMode_def resetEnergy_def resetMultipliers_def setResistors_def
    calculateDefaultMultipliers_def Let_def)

text \<open>
  Claim C9: in every object reachable from \<open>begin\<close> with a select level \<open>cw\<close> that is 0
  or 1, \<open>toggleMode\<close> returns the opposite of what \<open>getMode\<close> gave before the call,
  \<open>getMode\<close> gives the returned mode afterwards, the select pin then carries \<open>cw\<close> if
  the returned mode is CURRENT and the other binary level if it is VOLTAGE, and
  \<open>getMode\<close> right after \<open>setMode(m)\<close> gives \<open>m\<close>.
\<close>

theorem toggleMode_opposite:
  assumes "reachable vref fosc cw s" and "cw = 0 \<or> cw = 1"
  shows "fst (toggleMode s now) =
           (case getMode s of MODE_CURRENT \<Rightarrow> MODE_VOLTAGE | MODE_VOLTAGE \<Rightarrow> MODE_CURRENT) \<and>
         getMode (snd (toggleMode s now)) = fst (toggleMode s now) \<and>
         pin_levels (snd (toggleMode s now)) (sel_pin (snd (toggleMode s now))) =
           (case fst (toggleMode s now) of
              MODE_CURRENT \<Rightarrow> cw
            | MODE_VOLTAGE \<Rightarrow> (if cw = 0 then 1 else 0)) \<and>
         getMode (setMode s m now') = m"
proof -
  have cm: "current_mode s = cw" using assms(1) by (rule reachable_current_mode)
  show ?thesis using assms(2)
    by (cases m)
      (auto simp add: cm toggleMode_def setMode_def getMode_def digitalWrite_def Let_def
        word8_one_minus_neq split: hlw8012_mode_t.splits)
qed

theorem toggleMode_opposite_witness:
  "reachable 1 1 1 demo_irq \<and>
   getMode demo_irq = MODE_CURRENT \<and>
   fst (toggleMode demo_irq 70) = MODE_VOLTAGE \<and>
   getMode (snd (toggleMode demo_irq 70)) = MODE_VOLTAGE \<and>
   pin_levels (snd (toggleMode demo_irq 70)) 12 = 0 \<and>
   fst (toggleMode (snd (toggleMode demo_irq 70)) 90) = MODE_CURRENT \<and>
   pin_levels (snd (toggleMode (snd (toggleMode demo_irq 70)) 90)) 12 = 1 \<and>
   getMode (setMode demo_irq MODE_VOLTAGE 80) = MODE_VOLTAGE"
proof -
  have r: "reachable 1 1 1 demo_irq" unfolding demo_irq_def by (rule r_begin)
  have r2: "reachable 1 1 1 (snd (toggleMode demo_irq 70))" using r by (rule r_toggleMode)
  have b: "(1 :: u8) = 0 \<or> (1 :: u8) = 1" by simp
  have g: "getMode demo_irq = MODE_CURRENT"
    "sel_pin (snd (toggleMode demo_irq 70)) = 12"
    "sel_pin (snd (toggleMode (snd (toggleMode demo_irq 70)) 90)) = 12"
    by (simp_all add: getMode_def toggleMode_def setMode_def demo_defs)
  show ?thesis
    using r g toggleMode_opposite [OF r b, of 70 MODE_VOLTAGE 80]
      toggleMode_opposite [OF r2 b, of 90 MODE_VOLTAGE 80]
    by simp
qed

subsection \<open>Power factor\<close>

text \<open>
  Claim C3 says that \<open>getPowerFactor\<close> returns 0 whenever the apparent power is 0 and 1
  whenever active is at least apparent. The source tests \<open>active > apparent\<close> first and
  \<open>apparent == 0\<close> second. On \<open>demo_cal\<close> the power channel gives a pulse of 2 (active
  power 2, valid) and the shared channel times out (current 0, apparent power 0): the
  result is 1, not 0.
\<close>

theorem getPowerFactor_counterexample:
  "fst (getActivePower demo_cal \<lparr>micros = 0, pulseIn = 2\<rparr>) = 2 \<and>
   fst (snd (getActivePower demo_cal \<lparr>micros = 0, pulseIn = 2\<rparr>)) \<and>
   fst (getApparentPower (snd (snd (getActivePower demo_cal \<lparr>micros = 0, pulseIn = 2\<rparr>)))
          \<lparr>micros = 0, pulseIn = 0\<rparr> \<lparr>micros = 0, pulseIn = 0\<rparr>) = 0 \<and>
   fst (getPowerFactor demo_cal \<lparr>micros = 0, pulseIn = 2\<rparr>
          \<lparr>micros = 0, pulseIn = 0\<rparr> \<lparr>micros = 0, pulseIn = 0\<rparr>) = 1 \<and>
   fst (getPowerFactor demo_cal \<lparr>micros = 0, pulseIn = 2\<rparr>
          \<lparr>micros = 0, pulseIn = 0\<rparr> \<lparr>micros = 0, pulseIn = 0\<rparr>) \<noteq> 0"
  by (simp add: getPowerFactor_def getApparentPower_def getActivePower_def getCurrent_def
      getVoltage_def demo_defs)

text \<open>
  Claim C3, amended: with \<open>active\<close> the result of \<open>getActivePower\<close> and \<open>apparent\<close> the
  result of the \<open>getApparentPower\<close> call that follows it, \<open>getPowerFactor\<close> returns 1 when
  \<open>active > apparent\<close>, and also when \<open>active = apparent\<close> and both are not 0; it returns
  0 when \<open>apparent = 0\<close> and \<open>active \<le> 0\<close>; in every other case it returns
  \<open>active / apparent\<close>. Its flag is true exactly when both measurements are valid, and
  the object it leaves is the one left by the two calls.
\<close>

theorem getPowerFactor_cases:
  "(case getActivePower s pa of (active, valid_active, s1) \<Rightarrow>
      (case getApparentPower s1 pc pv of (apparent, valid_apparent, s2) \<Rightarrow>
         (case getPowerFactor s pa pc pv of (pf, valid, s') \<Rightarrow>
            (apparent < active \<longrightarrow> pf = 1) \<and>
            (active = apparent \<and> apparent \<noteq> 0 \<longrightarrow> pf = 1) \<and>
            (apparent = 0 \<and> active \<le> 0 \<longrightarrow> pf = 0) \<and>
            (active \<le> apparent \<and> apparent \<noteq> 0 \<longrightarrow> pf = active / apparent) \<and>
            valid = (valid_active \<and> valid_apparent) \<and> s' = s2)))"
  by (auto simp add: getPowerFactor_def split: prod.splits)

theorem getPowerFactor_cases_witness:
  "fst (getActivePower demo_pf \<lparr>micros = 0, pulseIn = 1000\<rparr>) = 3000 \<and>
   fst (getApparentPower (snd (snd (getActivePower demo_pf \<lparr>micros = 0, pulseIn = 1000\<rparr>)))
          \<lparr>micros = 0, pulseIn = 2\<rparr> \<lparr>micros = 0, pulseIn = 0\<rparr>) = 4000 \<and>
   fst (getPowerFactor demo_pf \<lparr>micros = 0, pulseIn = 1000\<rparr>
          \<lparr>micros = 0, pulseIn = 2\<rparr> \<lparr>micros = 0, pulseIn = 0\<rparr>) = 3 / 4"
proof -
  have a: "getActivePower demo_pf \<lparr>micros = 0, pulseIn = 1000\<rparr> =
      (3000, True, demo_pf\<lparr>power_pulse_width := 1000, power_val := 3000\<rparr>)"
    by (simp add: getActivePower_def demo_pf_def demo_defs)
  have b: "fst (getApparentPower (demo_pf\<lparr>power_pulse_width := 1000, power_val := 3000\<rparr>)
          \<lparr>micros = 0, pulseIn = 2\<rparr> \<lparr>micros = 0, pulseIn = 0\<rparr>) = 4000"
    by (simp add: getApparentPower_def getCurrent_def getVoltage_def demo_pf_def demo_defs)
  show ?thesis
    using a b getPowerFactor_cases [of demo_pf "\<lparr>micros = 0, pulseIn = 1000\<rparr>"
        "\<lparr>micros = 0, pulseIn = 2\<rparr>" "\<lparr>micros = 0, pulseIn = 0\<rparr>"]
    by (auto split: prod.splits)
qed

subsection \<open>Calibration\<close>

text \<open>
  Claim C4 says that a calibration call scales the multiplier by \<open>v / reading\<close> whenever
  a valid nonzero reading is available. The source compares the reading after
  \<open>static_cast<int>\<close>, so a reading below 1 counts as zero. On \<open>demo_cal\<close> a pulse of 8
  gives the valid reading 1/2, and \<open>expectedCurrent(1)\<close> leaves the multiplier at 8
  instead of doubling it.
\<close>

theorem expectedCurrent_counterexample:
  "static_cast_int (current_val demo_cal) = 0 \<and>
   fst (getCurrent demo_cal \<lparr>micros = 0, pulseIn = 8\<rparr>) = 1 / 2 \<and>
   fst (snd (getCurrent demo_cal \<lparr>micros = 0, pulseIn = 8\<rparr>)) \<and>
   current_multiplier demo_cal = 8 \<and>
   current_multiplier (expectedCurrent demo_cal 1 \<lparr>micros = 0, pulseIn = 8\<rparr>) = 8 \<and>
   current_multiplier (expectedCurrent demo_cal 1 \<lparr>micros = 0, pulseIn = 8\<rparr>)
     \<noteq> current_multiplier demo_cal * (1 / (1 / 2))"
  by (simp add: expectedCurrent_def getCurrent_def static_cast_int_def demo_defs)

text \<open>
  Claim C4, amended: when the cached reading of the quantity truncates to 0, the call
  runs the accessor of that quantity once; if the fresh reading \<open>r\<close> is valid and its
  integer part is at least 1, the multiplier of that quantity becomes the previous one
  times \<open>v / r\<close>; otherwise the object is the one the accessor left, with the multiplier
  as before.
\<close>

theorem calibration_on_fresh_reading:
  "(static_cast_int (current_val s) = 0 \<longrightarrow>
      (case getCurrent s p of (r, valid, s1) \<Rightarrow>
         current_multiplier s1 = current_multiplier s \<and>
         expectedCurrent s v p =
           (if valid \<and> 0 < static_cast_int r
            then s1\<lparr>current_multiplier := current_multiplier s * (v / r)\<rparr> else s1))) \<and>
   (static_cast_int (voltage_val s) = 0 \<longrightarrow>
      (case getVoltage s p of (r, valid, s1) \<Rightarrow>
         voltage_multiplier s1 = voltage_multiplier s \<and>
         expectedVoltage s v p =
           (if valid \<and> 0 < static_cast_int r
            then s1\<lparr>voltage_multiplier := voltage_multiplier s * (v / r)\<rparr> else s1))) \<and>
   (static_cast_int (power_val s) = 0 \<longrightarrow>
      (case getActivePower s p of (r, valid, s1) \<Rightarrow>
         power_multiplier s1 = power_multiplier s \<and>
         expectedActivePower s v p =
           (if valid \<and> 0 < static_cast_int r
            then s1\<lparr>power_multiplier := power_multiplier s * (v / r)\<rparr> else s1)))"
  using getCurrent_value [of s p] getVoltage_value [of s p] getActivePower_value [of s p]
  by (auto simp add: expectedCurrent_eq expectedVoltage_eq expectedActivePower_eq Let_def
      split: prod.splits)

theorem calibration_on_fresh_reading_witness:
  "static_cast_int (current_val demo_cal) = 0 \<and>
   fst (getCurrent demo_cal \<lparr>micros = 0, pulseIn = 2\<rparr>) = 2 \<and>
   current_multiplier (expectedCurrent demo_cal 3 \<lparr>micros = 0, pulseIn = 2\<rparr>) = 12 \<and>
   static_cast_int (voltage_val demo_cal) = 0 \<and>
   \<not> fst (snd (getVoltage demo_cal \<lparr>micros = 0, pulseIn = 2\<rparr>)) \<and>
   voltage_multiplier (expectedVoltage demo_cal 3 \<lparr>micros = 0, pulseIn = 2\<rparr>) = 8 \<and>
   static_cast_int (power_val (demo_cal\<lparr>power_val := 1 / 2\<rparr>)) = 0 \<and>
   power_multiplier
     (expectedActivePower (demo_cal\<lparr>power_val := 1 / 2\<rparr>) 3 \<lparr>micros = 0, pulseIn = 2\<rparr>) = 12"
proof -
  have h: "static_cast_int (current_val demo_cal) = 0"
    "static_cast_int (voltage_val demo_cal) = 0"
    "static_cast_int (power_val (demo_cal\<lparr>power_val := 1 / 2\<rparr>)) = 0"
    by (simp_all add: static_cast_int_def demo_defs)
  have g: "getCurrent demo_cal \<lparr>micros = 0, pulseIn = 2\<rparr> =
      (2, True, demo_cal\<lparr>current_pulse_width := 2, current_val := 2\<rparr>)"
    "getVoltage demo_cal \<lparr>micros = 0, pulseIn = 2\<rparr> = (0, False, demo_cal\<lparr>voltage_val := 0\<rparr>)"
    "getActivePower (demo_cal\<lparr>power_val := 1 / 2\<rparr>) \<lparr>micros = 0, pulseIn = 2\<rparr> =
      (2, True, demo_cal\<lparr>power_pulse_width := 2, power_val := 2\<rparr>)"
    "current_multiplier demo_cal = 8" "voltage_multiplier demo_cal = 8"
    "power_multiplier demo_cal = 8"
    by (simp_all add: getCurrent_def getVoltage_def getActivePower_def demo_defs)
  show ?thesis
    using h g
      calibration_on_fresh_reading
        [where s = demo_cal and p = "\<lparr>micros = 0, pulseIn = 2\<rparr>" and v = 3]
      calibration_on_fresh_reading
        [where s = "demo_cal\<lparr>power_val := 1 / 2\<rparr>" and p = "\<lparr>micros = 0, pulseIn = 2\<rparr>"
          and v = 3]
    by (simp add: static_cast_int_def)
qed

text \<open>
  The amended claim is silent on a cached reading whose integer part is not 0. There the
  source does not call the accessor, the local \<open>valid\<close> keeps its initial value
  \<open>false\<close>, and the call changes nothing, although its second test asks for a positive
  cached reading.
\<close>

lemma expected_cached_reading_unchanged:
  "(static_cast_int (current_val s) \<noteq> 0 \<longrightarrow> expectedCurrent s v p = s) \<and>
   (static_cast_int (voltage_val s) \<noteq> 0 \<longrightarrow> expectedVoltage s v p = s) \<and>
   (static_cast_int (power_val s) \<noteq> 0 \<longrightarrow> expectedActivePower s v p = s)"
  by (simp add: expectedCurrent_eq expectedVoltage_eq expectedActivePower_eq)

subsection \<open>Sign of the multipliers\<close>

lemma static_cast_int_pos: "0 < static_cast_int x \<Longrightarrow> 0 < x"
  by (simp add: static_cast_int_def split: if_splits)

lemma multipliers_getCurrent:
  "same_multipliers s (snd (snd (getCurrent s p)))"
  by (simp add: same_multipliers_def getCurrent_def checkCF1Signal_def digitalWrite_def Let_def)

lemma multipliers_getVoltage:
  "same_multipliers s (snd (snd (getVoltage s p)))"
  by (simp add: same_multipliers_def getVoltage_def checkCF1Signal_def digitalWrite_def Let_def)

lemma multipliers_getActivePower:
  "same_multipliers s (snd (snd (getActivePower s p)))"
  by (simp add: same_multipliers_def getActivePower_def checkCFSignal_def Let_def)

lemma calculateDefaultMultipliers_positive:
  "0 < vref \<Longrightarrow> 0 < fosc \<Longrightarrow> 0 < current_resistor s \<Longrightarrow> 0 < voltage_resistor s \<Longrightarrow>
     multipliers_positive (calculateDefaultMultipliers vref fosc s)"
  by (simp add: multipliers_positive_def calculateDefaultMultipliers_def)

lemma begin_op_positive:
  "0 < vref \<Longrightarrow> 0 < fosc \<Longrightarrow> 0 < current_resistor s \<Longrightarrow> 0 < voltage_resistor s \<Longrightarrow>
     multipliers_positive (begin_op vref fosc s cf cf1 sel cw irq t)"
  by (simp add: multipliers_positive_def begin_op_def pinMode_def digitalWrite_def
      calculateDefaultMultipliers_def Let_def)

lemma setResistors_positive:
  "0 < vref \<Longrightarrow> 0 < fosc \<Longrightarrow> 0 < d \<Longrightarrow> 0 < u + d \<Longrightarrow> 0 < c \<or> 0 < current_resistor s \<Longrightarrow>
     multipliers_positive (setResistors vref fosc s c u d)"
  by (auto simp add: multipliers_positive_def setResistors_def calculateDefaultMultipliers_def
      Let_def)

lemma expectedCurrent_positive:
  assumes "0 < v" and "multipliers_positive s"
  shows "multipliers_positive (expectedCurrent s v p)"
proof -
  have m: "multipliers_positive (snd (snd (getCurrent s p)))"
    using assms(2) multipliers_getCurrent [of s p]
    by (simp add: multipliers_positive_def same_multipliers_def)
  show ?thesis
    using assms(1,2) m
    by (auto simp add: expectedCurrent_eq Let_def multipliers_positive_def
        dest: static_cast_int_pos)
qed

lemma expectedVoltage_positive:
  assumes "0 < v" and "multipliers_positive s"
  shows "multipliers_positive (expectedVoltage s v p)"
proof -
  have m: "multipliers_positive (snd (snd (getVoltage s p)))"
    using assms(2) multipliers_getVoltage [of s p]
    by (simp add: multipliers_positive_def same_multipliers_def)
  show ?thesis
    using assms(1,2) m
    by (auto simp add: expectedVoltage_eq Let_def multipliers_positive_def
        dest: static_cast_int_pos)
qed

lemma expectedActivePower_positive:
  assumes "0 < v" and "multipliers_positive s"
  shows "multipliers_positive (expectedActivePower s v p)"
proof -
  have m: "multipliers_positive (snd (snd (getActivePower s p)))"
    using assms(2) multipliers_getActivePower [of s p]
    by (simp add: multipliers_positive_def same_multipliers_def)
  show ?thesis
    using assms(1,2) m
    by (auto simp add: expectedActivePower_eq Let_def multipliers_positive_def
        dest: static_cast_int_pos)
qed

lemma expected_failed_unchanged:
  "(static_cast_int (current_val s) = 0 \<and>
      \<not> (fst (snd (getCurrent s p)) \<and> 0 < static_cast_int (fst (getCurrent s p))) \<longrightarrow>
      same_multipliers s (expectedCurrent s v p)) \<and>
   (static_cast_int (voltage_val s) = 0 \<and>
      \<not> (fst (snd (getVoltage s p)) \<and> 0 < static_cast_int (fst (getVoltage s p))) \<longrightarrow>
      same_multipliers s (expectedVoltage s v p)) \<and>
   (static_cast_int (power_val s) = 0 \<and>
      \<not> (fst (snd (getActivePower s p)) \<and> 0 < static_cast_int (fst (getActivePower s p))) \<longrightarrow>
      same_multipliers s (expectedActivePower s v p))"
  using getCurrent_value [of s p] getVoltage_value [of s p] getActivePower_value [of s p]
    multipliers_getCurrent [of s p] multipliers_getVoltage [of s p]
    multipliers_getActivePower [of s p]
  by (auto simp add: expectedCurrent_eq expectedVoltage_eq expectedActivePower_eq Let_def
      split: prod.splits)

text \<open>
  Claim C5 says that the three multipliers are strictly positive after every call that
  takes effect, for every argument value. The calibration calls put no condition on the
  reference value: on \<open>demo_cal\<close> (all multipliers 8) a pulse of 2 gives the valid
  reading 2, and \<open>expectedCurrent(0)\<close> then sets the current multiplier to 0,
  \<open>expectedCurrent(-1)\<close> to -4.
\<close>

theorem multipliers_positive_counterexample:
  "multipliers_positive demo_cal \<and>
   fst (getCurrent demo_cal \<lparr>micros = 0, pulseIn = 2\<rparr>) = 2 \<and>
   fst (snd (getCurrent demo_cal \<lparr>micros = 0, pulseIn = 2\<rparr>)) \<and>
   current_multiplier (expectedCurrent demo_cal 0 \<lparr>micros = 0, pulseIn = 2\<rparr>) = 0 \<and>
   \<not> multipliers_positive (expectedCurrent demo_cal 0 \<lparr>micros = 0, pulseIn = 2\<rparr>) \<and>
   current_multiplier (expectedCurrent demo_cal (- 1) \<lparr>micros = 0, pulseIn = 2\<rparr>) = - 4 \<and>
   \<not> multipliers_positive (expectedCurrent demo_cal (- 1) \<lparr>micros = 0, pulseIn = 2\<rparr>)"
  by (simp add: multipliers_positive_def expectedCurrent_def getCurrent_def static_cast_int_def
      demo_defs)

text \<open>
  Claim C5, amended, for positive reference constants \<open>V_REF\<close> and \<open>F_OSC\<close> and in exact
  arithmetic: the three multipliers are strictly positive after \<open>begin\<close> and
  \<open>resetMultipliers\<close> when both stored resistor values are positive; after
  \<open>setResistors\<close> with a positive downstream value, a positive sum of upstream and
  downstream and a positive current resistor (given or stored); a \<open>setResistors\<close> call
  with a non-positive downstream value and a calibration call with a positive reference
  value keep them positive. A calibration call that measures afresh and gets an invalid
  reading, or one whose integer part is 0, leaves all three multipliers unchanged.
\<close>

theorem multipliers_stay_positive:
  assumes "0 < vref" and "0 < fosc"
  shows
    "(0 < current_resistor s \<and> 0 < voltage_resistor s \<longrightarrow>
        multipliers_positive (begin_op vref fosc s cfp cfs sel cw irq t) \<and>
        multipliers_positive (resetMultipliers vref fosc s)) \<and>
     (0 < d \<and> 0 < u + d \<and> (0 < c \<or> 0 < current_resistor s) \<longrightarrow>
        multipliers_positive (setResistors vref fosc s c u d)) \<and>
     (d \<le> 0 \<and> multipliers_positive s \<longrightarrow>
        multipliers_positive (setResistors vref fosc s c u d)) \<and>
     (0 < v \<and> multipliers_positive s \<longrightarrow>
        multipliers_positive (expectedCurrent s v p) \<and>
        multipliers_positive (expectedVoltage s v p) \<and>
        multipliers_positive (expectedActivePower s v p)) \<and>
     (static_cast_int (current_val s) = 0 \<and>
        \<not> (fst (snd (getCurrent s p)) \<and> 0 < static_cast_int (fst (getCurrent s p))) \<longrightarrow>
        same_multipliers s (expectedCurrent s v p)) \<and>
     (static_cast_int (voltage_val s) = 0 \<and>
        \<not> (fst (snd (getVoltage s p)) \<and> 0 < static_cast_int (fst (getVoltage s p))) \<longrightarrow>
        same_multipliers s (expectedVoltage s v p)) \<and>
     (static_cast_int (power_val s) = 0 \<and>
        \<not> (fst (snd (getActivePower s p)) \<and> 0 < static_cast_int (fst (getActivePower s p))) \<longrightarrow>
        same_multipliers s (expectedActivePower s v p))"
proof -
  have 1: "0 < current_resistor s \<and> 0 < voltage_resistor s \<longrightarrow>
        multipliers_positive (begin_op vref fosc s cfp cfs sel cw irq t) \<and>
        multipliers_positive (resetMultipliers vref fosc s)"
    using assms
    by (simp add: begin_op_positive resetMultipliers_def calculateDefaultMultipliers_positive)
  have 2: "0 < d \<and> 0 < u + d \<and> (0 < c \<or> 0 < current_resistor s) \<longrightarrow>
        multipliers_positive (setResistors vref fosc s c u d)"
    using assms setResistors_positive [of vref fosc d u c s] by blast
  have 3: "d \<le> 0 \<and> multipliers_positive s \<longrightarrow>
        multipliers_positive (setResistors vref fosc s c u d)"
    by (simp add: setResistors_def)
  have 4: "0 < v \<and> multipliers_positive s \<longrightarrow>
        multipliers_positive (expectedCurrent s v p) \<and>
        multipliers_positive (expectedVoltage s v p) \<and>
        multipliers_positive (expectedActivePower s v p)"
    by (simp add: expectedCurrent_positive expectedVoltage_positive
        expectedActivePower_positive)
  show ?thesis
    using 1 2 3 4 expected_failed_unchanged [of s p v] by blast
qed

theorem multipliers_stay_positive_witness:
  "(0 :: real) < 1 \<and> 0 < current_resistor demo_cal \<and> 0 < voltage_resistor demo_cal \<and>
   multipliers_positive demo_cal \<and>
   multipliers_positive (begin_op 1 1 demo_cal 4 5 12 1 True 1000) \<and>
   multipliers_positive (resetMultipliers 1 1 demo_cal) \<and>
   multipliers_positive (setResistors 1 1 demo_cal 2 3 1) \<and>
   multipliers_positive (expectedCurrent demo_cal 3 \<lparr>micros = 0, pulseIn = 2\<rparr>) \<and>
   multipliers_positive (expectedVoltage demo_cal 3 \<lparr>micros = 0, pulseIn = 2\<rparr>) \<and>
   multipliers_positive (expectedActivePower demo_cal 3 \<lparr>micros = 0, pulseIn = 2\<rparr>) \<and>
   static_cast_int (voltage_val demo_cal) = 0 \<and>
   \<not> fst (snd (getVoltage demo_cal \<lparr>micros = 0, pulseIn = 2\<rparr>)) \<and>
   same_multipliers demo_cal (expectedVoltage demo_cal 3 \<lparr>micros = 0, pulseIn = 2\<rparr>)"
proof -
  have one: "(0 :: real) < 1" by simp
  have h: "0 < current_resistor demo_cal" "0 < voltage_resistor demo_cal"
    "multipliers_positive demo_cal" "static_cast_int (voltage_val demo_cal) = 0"
    "\<not> fst (snd (getVoltage demo_cal \<lparr>micros = 0, pulseIn = 2\<rparr>))"
    by (simp_all add: multipliers_positive_def static_cast_int_def getVoltage_def demo_defs)
  show ?thesis
    using h
      multipliers_stay_positive [OF one one, where s = demo_cal and cfp = 4 and cfs = 5
        and sel = 12 and cw = 1 and irq = True and t = 1000 and c = 2 and u = 3 and d = 1
        and v = 3 and p = "\<lparr>micros = 0, pulseIn = 2\<rparr>"]
    by simp
qed

end
